theory Spec2Isabelle
  imports Complex_Main "HOL-Library.AList"
begin

section \<open>Python values\<close>

text \<open>
  The router (\<^verbatim>\<open>osc_router.py\<close>) is untyped Python: the rule table is a \<^verbatim>\<open>dict\<close> built from
  whatever \<^verbatim>\<open>json.load\<close> returned, and the handler receives whatever arguments the OSC
  library decoded. Both are modelled over one type of Python values, the seven kinds
  \<^verbatim>\<open>json.load\<close> can produce. A float is taken as the rational number it denotes (every
  finite float is one); NaN and the infinities are not in the model, nor are OSC blobs and
  other OSC-only kinds. An OSC Nil argument arrives as \<^verbatim>\<open>None\<close>, an OSC array as a list.
\<close>

datatype pyval =
    PNone
  | PBool bool
  | PInt int
  | PFloat rat
  | PStr string
  | PList "pyval list"
  | PDict "(string \<times> pyval) list"

text \<open>Truthiness, as \<^verbatim>\<open>bool(x)\<close> and \<^verbatim>\<open>not x\<close> compute it.\<close>

fun truthy :: "pyval \<Rightarrow> bool" where
  "truthy PNone = False"
| "truthy (PBool b) = b"
| "truthy (PInt i) = (i \<noteq> 0)"
| "truthy (PFloat r) = (r \<noteq> 0)"
| "truthy (PStr s) = (s \<noteq> [])"
| "truthy (PList xs) = (xs \<noteq> [])"
| "truthy (PDict kvs) = (kvs \<noteq> [])"

datatype error = AttributeError | TypeError

subsection \<open>Dictionary keys\<close>

text \<open>
  A \<^verbatim>\<open>dict\<close> identifies two keys when they hash alike and compare equal with \<^verbatim>\<open>==\<close>. For the
  values above that is: \<^verbatim>\<open>None\<close> equals only itself; a string equals the same string;
  \<^verbatim>\<open>bool\<close>, \<^verbatim>\<open>int\<close> and \<^verbatim>\<open>float\<close> compare by numeric value, so \<^verbatim>\<open>True == 1 == 1.0\<close> with equal
  hashes; lists and dicts are unhashable and hashing them raises \<^verbatim>\<open>TypeError\<close>.
  \<open>py_key\<close> maps a value to the representative of its class of equal keys, \<open>None\<close> when
  the value is unhashable.
\<close>

datatype hkey = HNone | HNum rat | HStr string

fun py_key :: "pyval \<Rightarrow> hkey option" where
  "py_key PNone = Some HNone"
| "py_key (PBool b) = Some (HNum (if b then 1 else 0))"
| "py_key (PInt i) = Some (HNum (of_int i))"
| "py_key (PFloat r) = Some (HNum r)"
| "py_key (PStr s) = Some (HStr s)"
| "py_key (PList xs) = None"
| "py_key (PDict kvs) = None"

text \<open>
  The key of the rule table is the tuple \<^verbatim>\<open>(address, value)\<close>; hashing a tuple hashes its
  components in order and raises \<^verbatim>\<open>TypeError\<close> at the first unhashable one.
\<close>

type_synonym rule_key = "hkey \<times> hkey"

definition tuple_key :: "pyval \<Rightarrow> pyval \<Rightarrow> error + rule_key" where
  "tuple_key a v =
     (case py_key a of
        None \<Rightarrow> Inl TypeError
      | Some ka \<Rightarrow>
          (case py_key v of
             None \<Rightarrow> Inl TypeError
           | Some kv \<Rightarrow> Inr (ka, kv)))"

subsection \<open>\<^verbatim>\<open>.get\<close> and iteration\<close>

text \<open>
  \<^verbatim>\<open>x.get(k, d)\<close>: only a dict has the attribute; on every other kind of value the
  attribute lookup raises \<^verbatim>\<open>AttributeError\<close>. A decoded JSON object has each key once.
\<close>

definition dict_get :: "(string \<times> pyval) list \<Rightarrow> string \<Rightarrow> pyval \<Rightarrow> pyval" where
  "dict_get kvs k d = (case map_of kvs k of None \<Rightarrow> d | Some v \<Rightarrow> v)"

fun py_get :: "pyval \<Rightarrow> string \<Rightarrow> pyval \<Rightarrow> error + pyval" where
  "py_get (PDict kvs) k d = Inr (dict_get kvs k d)"
| "py_get _ k d = Inl AttributeError"

text \<open>
  \<^verbatim>\<open>for m in x\<close>: a list yields its elements, a dict its keys, a string its characters (as
  one-character strings); the other kinds are not iterable (\<^verbatim>\<open>TypeError\<close>).
\<close>

fun py_iter :: "pyval \<Rightarrow> error + pyval list" where
  "py_iter (PList xs) = Inr xs"
| "py_iter (PDict kvs) = Inr (map (\<lambda>kv. PStr (fst kv)) kvs)"
| "py_iter (PStr s) = Inr (map (\<lambda>c. PStr [c]) s)"
| "py_iter _ = Inl TypeError"

section \<open>Program state\<close>

text \<open>
  The module globals \<^verbatim>\<open>VALUE_MAP\<close>, \<^verbatim>\<open>FORWARD_UNMAPPED\<close> and \<^verbatim>\<open>osc_client\<close>, and the two sinks
  the code writes to: the messages handed to \<^verbatim>\<open>osc_client.send_message\<close> (\<open>sent\<close>) and the
  lines given to \<^verbatim>\<open>log_gui\<close> (\<open>gui_log\<close>). \<^verbatim>\<open>VALUE_MAP\<close> maps a key to the pair
  \<^verbatim>\<open>(out_address, out_args)\<close>; it is an association list in insertion order, updated in
  place as a \<^verbatim>\<open>dict\<close> is. A log line is kept as an event with the values formatted into it.
\<close>

type_synonym rule_out = "pyval \<times> pyval"
type_synonym value_map = "(rule_key \<times> rule_out) list"

datatype event =
    Recv string "pyval list"
  | Send pyval "pyval list"
  | Warn_client_not_initialized
  | Ignored string pyval
  | Config_created
  | Error_writing_default
  | Config_loaded
  | Error_reading_config
  | Loaded_mappings nat bool

record state =
  VALUE_MAP :: value_map
  FORWARD_UNMAPPED :: bool
  osc_client :: "(string \<times> int) option"
  sent :: "(pyval \<times> pyval list) list"
  gui_log :: "event list"

text \<open>The globals as the module initialises them (lines 32, 33 and 41).\<close>

definition initial_state :: state where
  "initial_state =
     \<lparr>VALUE_MAP = [], FORWARD_UNMAPPED = True, osc_client = None, sent = [], gui_log = []\<rparr>"

definition log_gui :: "event \<Rightarrow> state \<Rightarrow> state" where
  "log_gui ev st = st\<lparr>gui_log := gui_log st @ [ev]\<rparr>"

section \<open>\<^verbatim>\<open>load_config\<close>\<close>

text \<open>
  What \<^verbatim>\<open>load_config\<close> finds on disk: no file (and then whether writing the default file
  succeeds), a file whose reading or decoding raises, or a file decoded to a value.
\<close>

datatype config_source = No_file bool | Unreadable | Decoded pyval

definition default_config :: pyval where
  "default_config = PDict [(''forward_unmapped'', PBool True), (''mappings'', PList [])]"

text \<open>The body of the loop over \<^verbatim>\<open>data.get("mappings", [])\<close> (lines 118 to 127).\<close>

definition add_mapping :: "pyval \<Rightarrow> value_map \<Rightarrow> error + value_map" where
  "add_mapping m mappings_dict =
     (case py_get m ''in_address'' PNone of
        Inl e \<Rightarrow> Inl e
      | Inr in_addr \<Rightarrow>
     (case py_get m ''in_value'' PNone of
        Inl e \<Rightarrow> Inl e
      | Inr in_val \<Rightarrow>
     (case py_get m ''out_address'' PNone of
        Inl e \<Rightarrow> Inl e
      | Inr out_addr \<Rightarrow>
     (case py_get m ''out_args'' (PList []) of
        Inl e \<Rightarrow> Inl e
      | Inr out_args \<Rightarrow>
          if \<not> truthy in_addr \<or> \<not> truthy out_addr then Inr mappings_dict
          else
            (case tuple_key in_addr in_val of
               Inl e \<Rightarrow> Inl e
             | Inr key \<Rightarrow> Inr (AList.update key (out_addr, out_args) mappings_dict))))))"

text \<open>The loop itself: an exception in the body ends it.\<close>

fun build_mappings :: "pyval list \<Rightarrow> value_map \<Rightarrow> error + value_map" where
  "build_mappings [] mappings_dict = Inr mappings_dict"
| "build_mappings (m # ms) mappings_dict =
     (case add_mapping m mappings_dict of
        Inl e \<Rightarrow> Inl e
      | Inr d \<Rightarrow> build_mappings ms d)"

text \<open>
  Lines 112 to 130, run on the decoded data. \<^verbatim>\<open>FORWARD_UNMAPPED\<close> is assigned before the
  loop and \<^verbatim>\<open>VALUE_MAP\<close> after it, so an exception raised in between leaves the new flag
  with the old table: the result is the exception, if any, and the state reached.
\<close>

definition apply_config :: "pyval \<Rightarrow> state \<Rightarrow> error option \<times> state" where
  "apply_config data st =
     (case py_get data ''forward_unmapped'' (PBool False) of
        Inl e \<Rightarrow> (Some e, st)
      | Inr f \<Rightarrow>
          let st1 = st\<lparr>FORWARD_UNMAPPED := truthy f\<rparr> in
          (case py_get data ''mappings'' (PList []) of
             Inl e \<Rightarrow> (Some e, st1)
           | Inr ms \<Rightarrow>
               (case py_iter ms of
                  Inl e \<Rightarrow> (Some e, st1)
                | Inr entries \<Rightarrow>
                    (case build_mappings entries [] of
                       Inl e \<Rightarrow> (Some e, st1)
                     | Inr d \<Rightarrow>
                         (None,
                          log_gui (Loaded_mappings (length d) (truthy f))
                            (st1\<lparr>VALUE_MAP := d\<rparr>))))))"

definition load_config :: "config_source \<Rightarrow> state \<Rightarrow> error option \<times> state" where
  "load_config src st =
     (case src of
        No_file write_ok \<Rightarrow>
          if write_ok then apply_config default_config (log_gui Config_created st)
          else (None, log_gui Error_writing_default st)
      | Unreadable \<Rightarrow> (None, log_gui Error_reading_config st)
      | Decoded data \<Rightarrow> apply_config data (log_gui Config_loaded st))"

section \<open>Dispatch\<close>

text \<open>
  \<^verbatim>\<open>send_osc\<close>: without a client only a warning is logged. Otherwise \<^verbatim>\<open>None\<close> becomes no
  arguments, a list is sent as it is and any other value as a one-element list; the
  message is logged and handed to \<^verbatim>\<open>osc_client.send_message\<close>.
\<close>

definition send_args :: "pyval \<Rightarrow> pyval list" where
  "send_args out_args =
     (case out_args of
        PNone \<Rightarrow> []
      | PList xs \<Rightarrow> xs
      | _ \<Rightarrow> [out_args])"

definition send_osc :: "pyval \<Rightarrow> pyval \<Rightarrow> state \<Rightarrow> state" where
  "send_osc address out_args st =
     (case osc_client st of
        None \<Rightarrow> log_gui Warn_client_not_initialized st
      | Some client \<Rightarrow>
          let args = send_args out_args;
              st1 = log_gui (Send address args) st
          in st1\<lparr>sent := sent st1 @ [(address, args)]\<rparr>)"

text \<open>
  \<^verbatim>\<open>osc_handler(address, *args)\<close>; \<open>first_arg\<close> is \<^verbatim>\<open>args[0] if args else None\<close>. The membership test \<^verbatim>\<open>key in VALUE_MAP\<close> hashes the key
  first, so an unhashable first argument raises \<^verbatim>\<open>TypeError\<close> there, after the inbound
  message has been logged.
\<close>

fun first_arg :: "pyval list \<Rightarrow> pyval" where
  "first_arg [] = PNone"
| "first_arg (a # _) = a"

definition osc_handler :: "string \<Rightarrow> pyval list \<Rightarrow> state \<Rightarrow> error option \<times> state" where
  "osc_handler address args st =
     (let st1 = log_gui (Recv address args) st in
        (case tuple_key (PStr address) (first_arg args) of
           Inl e \<Rightarrow> (Some e, st1)
         | Inr key \<Rightarrow>
             (case map_of (VALUE_MAP st1) key of
                Some (out_address, out_args) \<Rightarrow> (None, send_osc out_address out_args st1)
              | None \<Rightarrow>
                  if FORWARD_UNMAPPED st1
                  then (None, send_osc (PStr address) (PList args) st1)
                  else (None, log_gui (Ignored address (first_arg args)) st1))))"

section \<open>Notions used to state the properties\<close>

text \<open>
  The state with one rule taken out of the table. A rule plays no part in handling a
  message when the handler does the same with and without it.
\<close>

definition without_rule :: "rule_key \<Rightarrow> state \<Rightarrow> state" where
  "without_rule key st = st\<lparr>VALUE_MAP := AList.delete key (VALUE_MAP st)\<rparr>"

text \<open>
  The rule an entry of \<^verbatim>\<open>"mappings"\<close> contributes: what the loop body stores when it runs
  on the empty dict; \<open>None\<close> for an entry that is skipped or on which the body raises.
\<close>

definition stored_rule :: "pyval \<Rightarrow> (rule_key \<times> rule_out) option" where
  "stored_rule m = (case add_mapping m [] of Inr [r] \<Rightarrow> Some r | _ \<Rightarrow> None)"

text \<open>
  The shape of decoded data on which construction returns: the data is an object; its
  \<^verbatim>\<open>"mappings"\<close>, when present, is a list (or an empty object or string, which iterate
  over nothing); each entry is an object that either lacks a non-empty \<^verbatim>\<open>in_address\<close> or
  \<^verbatim>\<open>out_address\<close>, or has a hashable \<^verbatim>\<open>in_address\<close> and \<^verbatim>\<open>in_value\<close>.
\<close>

fun entry_ok :: "pyval \<Rightarrow> bool" where
  "entry_ok (PDict kvs) =
     (\<not> truthy (dict_get kvs ''in_address'' PNone)
      \<or> \<not> truthy (dict_get kvs ''out_address'' PNone)
      \<or> (py_key (dict_get kvs ''in_address'' PNone) \<noteq> None
         \<and> py_key (dict_get kvs ''in_value'' PNone) \<noteq> None))"
| "entry_ok _ = False"

fun config_ok :: "pyval \<Rightarrow> bool" where
  "config_ok (PDict kvs) =
     (case dict_get kvs ''mappings'' (PList []) of
        PList entries \<Rightarrow> list_all entry_ok entries
      | PDict d \<Rightarrow> d = []
      | PStr s \<Rightarrow> s = []
      | _ \<Rightarrow> False)"
| "config_ok _ = False"

section \<open>States and configurations used in the examples\<close>

text \<open>
  A session is running once \<^verbatim>\<open>start_osc_server\<close> has set \<^verbatim>\<open>osc_client\<close>; it does so before it
  creates the server that calls \<^verbatim>\<open>osc_handler\<close>, and nothing in the module resets it.
\<close>

definition running_state :: state where
  "running_state = initial_state\<lparr>osc_client := Some (''127.0.0.1'', 7000)\<rparr>"

definition example_state :: state where
  "example_state = running_state
     \<lparr>VALUE_MAP := [((HStr ''/btn/1'', HNum 1), (PStr ''/light/1'', PList [PInt 255]))],
      FORWARD_UNMAPPED := False\<rparr>"

definition first_rule :: pyval where
  "first_rule = PDict [(''in_address'', PStr ''/btn/1''), (''in_value'', PInt 1),
                       (''out_address'', PStr ''/light/1''), (''out_args'', PList [PInt 255])]"

definition second_rule :: pyval where
  "second_rule = PDict [(''in_address'', PStr ''/btn/1''), (''in_value'', PInt 1),
                        (''out_address'', PStr ''/light/2''), (''out_args'', PList [PInt 0])]"

definition no_out_address :: "(string \<times> pyval) list" where
  "no_out_address = [(''in_address'', PStr ''/btn/2''), (''in_value'', PInt 1)]"

text \<open>The configuration \<^verbatim>\<open>{"mappings": [first_rule]}\<close>, loaded at startup, session running.\<close>

definition button_config :: pyval where
  "button_config = PDict [(''mappings'', PList [first_rule])]"

definition button_state :: state where
  "button_state =
     (snd (load_config (Decoded button_config) initial_state))
       \<lparr>osc_client := Some (''127.0.0.1'', 7000)\<rparr>"

text \<open>A rule without \<^verbatim>\<open>in_value\<close>: \<^verbatim>\<open>{"mappings": [{"in_address": "/stop", "out_address": "/all/off"}]}\<close>.\<close>

definition absent_config :: pyval where
  "absent_config = PDict [(''mappings'', PList
     [PDict [(''in_address'', PStr ''/stop''), (''out_address'', PStr ''/all/off'')]])]"

definition absent_state :: state where
  "absent_state =
     (snd (load_config (Decoded absent_config) initial_state))
       \<lparr>osc_client := Some (''127.0.0.1'', 7000)\<rparr>"

definition duplicate_config :: "(string \<times> pyval) list" where
  "duplicate_config = [(''mappings'', PList [first_rule, second_rule])]"

definition malformed_config :: "(string \<times> pyval) list" where
  "malformed_config = [(''mappings'', PList [PDict no_out_address, first_rule])]"

text \<open>A rule whose \<^verbatim>\<open>in_value\<close> is a JSON array.\<close>

definition unhashable_value_config :: pyval where
  "unhashable_value_config = PDict [(''forward_unmapped'', PBool True), (''mappings'', PList
     [PDict [(''in_address'', PStr ''/a''), (''in_value'', PList [PInt 1, PInt 2]),
             (''out_address'', PStr ''/b''), (''out_args'', PList [])]])]"

section \<open>Auxiliary lemmas\<close>

lemma tuple_key_address:
  "tuple_key (PStr A) v = (case py_key v of None \<Rightarrow> Inl TypeError | Some kv \<Rightarrow> Inr (HStr A, kv))"
  by (simp add: tuple_key_def)

lemma osc_handler_hit:
  assumes "py_key (first_arg args) = Some k"
      and "map_of (VALUE_MAP st) (HStr A, k) = Some (out_address, out_args)"
  shows "osc_handler A args st =
           (None, send_osc out_address out_args (log_gui (Recv A args) st))"
  using assms by (simp add: osc_handler_def tuple_key_address log_gui_def)

lemma osc_handler_miss:
  assumes "py_key (first_arg args) = Some k"
      and "map_of (VALUE_MAP st) (HStr A, k) = None"
  shows "osc_handler A args st =
           (if FORWARD_UNMAPPED st
            then (None, send_osc (PStr A) (PList args) (log_gui (Recv A args) st))
            else (None, log_gui (Ignored A (first_arg args)) (log_gui (Recv A args) st)))"
  using assms by (simp add: osc_handler_def tuple_key_address log_gui_def)

lemma osc_handler_unhashable:
  assumes "py_key (first_arg args) = None"
  shows "osc_handler A args st = (Some TypeError, log_gui (Recv A args) st)"
  using assms by (simp add: osc_handler_def tuple_key_address)

lemma sent_send_osc:
  "osc_client st = Some c \<Longrightarrow>
   sent (send_osc a out_args st) = sent st @ [(a, send_args out_args)]"
  by (simp add: send_osc_def log_gui_def Let_def)

lemma send_osc_client:
  "osc_client st = Some c \<Longrightarrow>
   send_osc a out_args st =
     st\<lparr>sent := sent st @ [(a, send_args out_args)],
        gui_log := gui_log st @ [Send a (send_args out_args)]\<rparr>"
  by (simp add: send_osc_def log_gui_def Let_def)

section \<open>Dispatch: mapped hit, pass-through and drop\<close>

text \<open>
  C1. Whenever the rule table has an entry under the key of \<open>(A, V)\<close>, a message at address
  \<open>A\<close> whose first argument is \<open>V\<close> makes the handler call \<^verbatim>\<open>send_osc\<close> with exactly the stored
  \<open>out_address\<close> and \<open>out_args\<close>, whatever the remaining arguments and whatever
  \<^verbatim>\<open>FORWARD_UNMAPPED\<close> is. With a client set, the message handed to it has the stored
  address and the stored argument list as it is; none of the inbound arguments is in it.
\<close>

theorem mapped_hit_sends_rule_output:
  assumes "py_key V = Some k"
      and "map_of (VALUE_MAP st) (HStr A, k) = Some (out_address, out_args)"
  shows "osc_handler A (V # rest) st =
           (None, send_osc out_address out_args (log_gui (Recv A (V # rest)) st))
       \<and> (osc_client st \<noteq> None \<longrightarrow>
            sent (snd (osc_handler A (V # rest) st)) =
              sent st @ [(out_address, send_args out_args)])
       \<and> (out_args = PList xs \<longrightarrow> send_args out_args = xs)"
proof -
  have hit: "osc_handler A (V # rest) st =
           (None, send_osc out_address out_args (log_gui (Recv A (V # rest)) st))"
    using assms by (intro osc_handler_hit) simp_all
  moreover have "osc_client st \<noteq> None \<longrightarrow>
            sent (snd (osc_handler A (V # rest) st)) =
              sent st @ [(out_address, send_args out_args)]"
    by (auto simp: hit sent_send_osc log_gui_def)
  moreover have "out_args = PList xs \<longrightarrow> send_args out_args = xs"
    by (simp add: send_args_def)
  ultimately show ?thesis by blast
qed

theorem mapped_hit_sends_rule_output_witness:
  "py_key (PInt 1) = Some (HNum 1)
   \<and> map_of (VALUE_MAP example_state) (HStr ''/btn/1'', HNum 1) =
       Some (PStr ''/light/1'', PList [PInt 255])
   \<and> osc_client example_state \<noteq> None
   \<and> sent (snd (osc_handler ''/btn/1'' [PInt 1, PStr ''x'', PInt 7] example_state)) =
       [(PStr ''/light/1'', [PInt 255])]"
proof -
  have k: "py_key (PInt 1) = Some (HNum 1)" by simp
  have r: "map_of (VALUE_MAP example_state) (HStr ''/btn/1'', HNum 1) =
       Some (PStr ''/light/1'', PList [PInt 255])"
    by (simp add: example_state_def)
  have c: "osc_client example_state \<noteq> None"
    by (simp add: example_state_def running_state_def)
  have s: "sent example_state = []"
    by (simp add: example_state_def running_state_def initial_state_def)
  note t = mapped_hit_sends_rule_output [OF k r, of "[PStr ''x'', PInt 7]" "[PInt 255]"]
  from t c have "sent (snd (osc_handler ''/btn/1'' [PInt 1, PStr ''x'', PInt 7] example_state)) =
      sent example_state @ [(PStr ''/light/1'', send_args (PList [PInt 255]))]"
    by blast
  moreover from t have "send_args (PList [PInt 255]) = [PInt 255]"
    by blast
  ultimately show ?thesis using k r c s by simp
qed

text \<open>
  C2, as the code has it. With \<^verbatim>\<open>FORWARD_UNMAPPED\<close> true, a message whose first argument is
  hashable and whose key has no entry is handed to \<^verbatim>\<open>send_osc\<close> with its own address and its
  own argument list; with a client set, exactly that message is sent: same address, same
  arguments, same order.
\<close>

theorem unmapped_passthrough:
  assumes "FORWARD_UNMAPPED st"
      and "py_key (first_arg args) = Some k"
      and "map_of (VALUE_MAP st) (HStr A, k) = None"
  shows "osc_handler A args st =
           (None, send_osc (PStr A) (PList args) (log_gui (Recv A args) st))
       \<and> (osc_client st \<noteq> None \<longrightarrow>
            snd (osc_handler A args st) =
              st\<lparr>sent := sent st @ [(PStr A, args)],
                 gui_log := gui_log st @ [Recv A args, Send (PStr A) args]\<rparr>)"
  using assms
  by (auto simp: osc_handler_miss send_osc_client log_gui_def send_args_def)

theorem unmapped_passthrough_witness:
  "FORWARD_UNMAPPED running_state
   \<and> py_key (first_arg [PInt 0, PStr ''x'']) = Some (HNum 0)
   \<and> map_of (VALUE_MAP running_state) (HStr ''/btn/1'', HNum 0) = None
   \<and> osc_client running_state \<noteq> None
   \<and> snd (osc_handler ''/btn/1'' [PInt 0, PStr ''x''] running_state) =
       running_state
         \<lparr>sent := [(PStr ''/btn/1'', [PInt 0, PStr ''x''])],
          gui_log := [Recv ''/btn/1'' [PInt 0, PStr ''x''],
                      Send (PStr ''/btn/1'') [PInt 0, PStr ''x'']]\<rparr>"
proof -
  have f: "FORWARD_UNMAPPED running_state"
    by (simp add: running_state_def initial_state_def)
  have k: "py_key (first_arg [PInt 0, PStr ''x'']) = Some (HNum 0)"
    by simp
  have m: "map_of (VALUE_MAP running_state) (HStr ''/btn/1'', HNum 0) = None"
    by (simp add: running_state_def initial_state_def)
  have c: "osc_client running_state \<noteq> None"
    by (simp add: running_state_def)
  have e: "sent running_state = [] \<and> gui_log running_state = []"
    by (simp add: running_state_def initial_state_def)
  note t = unmapped_passthrough [OF f k m]
  from t c have "snd (osc_handler ''/btn/1'' [PInt 0, PStr ''x''] running_state) =
      running_state
        \<lparr>sent := sent running_state @ [(PStr ''/btn/1'', [PInt 0, PStr ''x''])],
         gui_log := gui_log running_state @
           [Recv ''/btn/1'' [PInt 0, PStr ''x''], Send (PStr ''/btn/1'') [PInt 0, PStr ''x'']]\<rparr>"
    by blast
  then show ?thesis using f k m c e by simp
qed

text \<open>
  C2 as the specification states it, for every inbound message, fails when the first
  argument is an OSC array: the key cannot be hashed, the handler raises \<^verbatim>\<open>TypeError\<close> after
  logging the inbound message, and nothing is forwarded.
\<close>

theorem passthrough_array_counterexample:
  "FORWARD_UNMAPPED running_state \<and> VALUE_MAP running_state = []
   \<and> osc_client running_state \<noteq> None
   \<and> osc_handler ''/fader'' [PList [PInt 1, PInt 2]] running_state =
       (Some TypeError, running_state\<lparr>gui_log := [Recv ''/fader'' [PList [PInt 1, PInt 2]]]\<rparr>)
   \<and> sent (snd (osc_handler ''/fader'' [PList [PInt 1, PInt 2]] running_state)) = []"
  by (simp add: running_state_def initial_state_def osc_handler_def tuple_key_def log_gui_def)

text \<open>
  C3. With \<^verbatim>\<open>FORWARD_UNMAPPED\<close> false, a message whose key has no entry produces no outbound
  message: the handler logs the inbound message and the line "Ignored (no mapping for
  key)", and changes nothing else. When the first argument is unhashable the handler
  stops with \<^verbatim>\<open>TypeError\<close> right after the first log line; nothing is sent then either.
\<close>

theorem unmapped_drop:
  assumes "\<not> FORWARD_UNMAPPED st"
      and "\<forall>k. py_key (first_arg args) = Some k \<longrightarrow> map_of (VALUE_MAP st) (HStr A, k) = None"
  shows "sent (snd (osc_handler A args st)) = sent st
       \<and> (py_key (first_arg args) \<noteq> None \<longrightarrow>
            osc_handler A args st =
              (None, st\<lparr>gui_log := gui_log st @ [Recv A args, Ignored A (first_arg args)]\<rparr>))
       \<and> (py_key (first_arg args) = None \<longrightarrow>
            osc_handler A args st =
              (Some TypeError, st\<lparr>gui_log := gui_log st @ [Recv A args]\<rparr>))"
proof (cases "py_key (first_arg args)")
  case None
  then show ?thesis by (simp add: osc_handler_unhashable log_gui_def)
next
  case (Some k)
  with assms have "map_of (VALUE_MAP st) (HStr A, k) = None" by simp
  with Some assms(1) show ?thesis by (simp add: osc_handler_miss log_gui_def)
qed

theorem unmapped_drop_witness:
  "\<not> FORWARD_UNMAPPED example_state
   \<and> py_key (first_arg [PInt 0]) = Some (HNum 0)
   \<and> map_of (VALUE_MAP example_state) (HStr ''/btn/1'', HNum 0) = None
   \<and> osc_handler ''/btn/1'' [PInt 0] example_state =
       (None, example_state\<lparr>gui_log := [Recv ''/btn/1'' [PInt 0], Ignored ''/btn/1'' (PInt 0)]\<rparr>)
   \<and> sent (snd (osc_handler ''/btn/1'' [PInt 0] example_state)) = []"
proof -
  have f: "\<not> FORWARD_UNMAPPED example_state"
    by (simp add: example_state_def)
  have m: "\<forall>k. py_key (first_arg [PInt 0]) = Some k \<longrightarrow>
          map_of (VALUE_MAP example_state) (HStr ''/btn/1'', k) = None"
    by (simp add: example_state_def)
  have e: "sent example_state = [] \<and> gui_log example_state = []"
    by (simp add: example_state_def running_state_def initial_state_def)
  have h: "py_key (first_arg [PInt 0]) \<noteq> None"
    by simp
  note t = unmapped_drop [OF f m]
  from t h have "osc_handler ''/btn/1'' [PInt 0] example_state =
      (None, example_state\<lparr>gui_log := gui_log example_state @
         [Recv ''/btn/1'' [PInt 0], Ignored ''/btn/1'' (first_arg [PInt 0])]\<rparr>)"
    by blast
  moreover from t have "sent (snd (osc_handler ''/btn/1'' [PInt 0] example_state)) =
      sent example_state"
    by blast
  ultimately show ?thesis using f e by (simp add: example_state_def)
qed

section \<open>Which first arguments hit a rule\<close>

lemma without_rule_log_gui:
  "log_gui ev (without_rule key st) = without_rule key (log_gui ev st)"
  by (simp add: log_gui_def without_rule_def)

lemma without_rule_send_osc:
  "send_osc a b (without_rule key st) = without_rule key (send_osc a b st)"
  by (simp add: send_osc_def without_rule_def log_gui_def Let_def split: option.splits)

text \<open>
  A message whose first argument does not have the key value \<open>kv\<close> is handled in the same
  way whether or not the table holds a rule under \<open>(A, kv)\<close>.
\<close>

lemma osc_handler_other_rule:
  assumes "py_key (first_arg args) \<noteq> Some kv"
  shows "osc_handler A args (without_rule (HStr A, kv) st) =
           (fst (osc_handler A args st), without_rule (HStr A, kv) (snd (osc_handler A args st)))"
proof (cases "py_key (first_arg args)")
  case None
  then show ?thesis
    by (simp add: osc_handler_unhashable without_rule_log_gui)
next
  case (Some k)
  with assms have neq: "(HStr A, k) \<noteq> (HStr A, kv)" by simp
  have look: "map_of (VALUE_MAP (without_rule (HStr A, kv) st)) (HStr A, k) =
              map_of (VALUE_MAP st) (HStr A, k)"
    using neq by (simp add: without_rule_def)
  have flag: "FORWARD_UNMAPPED (without_rule (HStr A, kv) st) = FORWARD_UNMAPPED st"
    by (simp add: without_rule_def)
  show ?thesis
  proof (cases "map_of (VALUE_MAP st) (HStr A, k)")
    case None
    with look Some flag show ?thesis
      by (simp add: osc_handler_miss without_rule_log_gui without_rule_send_osc)
  next
    case (Some out)
    obtain oa oargs where out: "out = (oa, oargs)" by (cases out)
    from Some out look \<open>py_key (first_arg args) = Some k\<close> show ?thesis
      by (simp add: osc_handler_hit without_rule_log_gui without_rule_send_osc)
  qed
qed

text \<open>
  C4, as the code has it. The first argument \<open>V\<close> hits the rule stored for match value \<open>W\<close>
  exactly when the two are equal as dictionary keys: then the rule's output is sent, and
  otherwise the rule plays no part in handling the message. Key equality is Python's
  \<^verbatim>\<open>==\<close>: numbers are compared by value across \<^verbatim>\<open>bool\<close>, \<^verbatim>\<open>int\<close> and \<^verbatim>\<open>float\<close>, so a float
  equals the integer of the same value and \<^verbatim>\<open>True\<close> equals 1, while a string or \<^verbatim>\<open>None\<close>
  never equals an integer.
\<close>

theorem rule_matches_by_key_equality:
  assumes "py_key W = Some k"
      and "map_of (VALUE_MAP st) (HStr A, k) = Some (out_address, out_args)"
  shows "(py_key V = py_key W \<longrightarrow>
            osc_handler A (V # rest) st =
              (None, send_osc out_address out_args (log_gui (Recv A (V # rest)) st)))
       \<and> (py_key V \<noteq> py_key W \<longrightarrow>
            osc_handler A (V # rest) (without_rule (HStr A, k) st) =
              (fst (osc_handler A (V # rest) st),
               without_rule (HStr A, k) (snd (osc_handler A (V # rest) st))))
       \<and> (py_key (PFloat r) = py_key (PInt i) \<longleftrightarrow> r = of_int i)
       \<and> (py_key (PBool b) = py_key (PInt i) \<longleftrightarrow> i = (if b then 1 else 0))
       \<and> py_key (PStr s) \<noteq> py_key (PInt i)
       \<and> py_key PNone \<noteq> py_key (PInt i)"
proof -
  have "py_key (PBool b) = py_key (PInt i) \<longleftrightarrow> i = (if b then 1 else 0)"
    by (cases b) auto
  with assms show ?thesis
    by (auto simp: osc_handler_hit intro!: osc_handler_other_rule)
qed

theorem rule_matches_by_key_equality_witness:
  "py_key (PInt 1) = Some (HNum 1)
   \<and> map_of (VALUE_MAP example_state) (HStr ''/btn/1'', HNum 1) =
       Some (PStr ''/light/1'', PList [PInt 255])
   \<and> py_key (PFloat 1) = py_key (PInt 1)
   \<and> sent (snd (osc_handler ''/btn/1'' [PFloat 1] example_state)) =
       [(PStr ''/light/1'', [PInt 255])]
   \<and> py_key (PStr ''1'') \<noteq> py_key (PInt 1)
   \<and> osc_handler ''/btn/1'' [PStr ''1'']
         (without_rule (HStr ''/btn/1'', HNum 1) example_state) =
       (fst (osc_handler ''/btn/1'' [PStr ''1''] example_state),
        without_rule (HStr ''/btn/1'', HNum 1)
          (snd (osc_handler ''/btn/1'' [PStr ''1''] example_state)))
   \<and> sent (snd (osc_handler ''/btn/1'' [PStr ''1''] example_state)) = []"
proof -
  have k: "py_key (PInt 1) = Some (HNum 1)" by simp
  have r: "map_of (VALUE_MAP example_state) (HStr ''/btn/1'', HNum 1) =
       Some (PStr ''/light/1'', PList [PInt 255])"
    by (simp add: example_state_def)
  have c: "osc_client example_state = Some (''127.0.0.1'', 7000)"
    by (simp add: example_state_def running_state_def)
  have s: "sent example_state = []"
    by (simp add: example_state_def running_state_def initial_state_def)
  have f: "py_key (PFloat 1) = py_key (PInt 1)" by simp
  have n: "py_key (PStr ''1'') \<noteq> py_key (PInt 1)" by simp
  note hit = rule_matches_by_key_equality [OF k r, of "PFloat 1" "[]"]
  note miss = rule_matches_by_key_equality [OF k r, of "PStr ''1''" "[]"]
  from hit f have "osc_handler ''/btn/1'' [PFloat 1] example_state =
      (None, send_osc (PStr ''/light/1'') (PList [PInt 255])
         (log_gui (Recv ''/btn/1'' [PFloat 1]) example_state))"
    by blast
  with c s have 1: "sent (snd (osc_handler ''/btn/1'' [PFloat 1] example_state)) =
       [(PStr ''/light/1'', [PInt 255])]"
    by (simp add: send_osc_client log_gui_def send_args_def)
  from miss n have 2: "osc_handler ''/btn/1'' [PStr ''1'']
         (without_rule (HStr ''/btn/1'', HNum 1) example_state) =
       (fst (osc_handler ''/btn/1'' [PStr ''1''] example_state),
        without_rule (HStr ''/btn/1'', HNum 1)
          (snd (osc_handler ''/btn/1'' [PStr ''1''] example_state)))"
    by blast
  have 3: "sent (snd (osc_handler ''/btn/1'' [PStr ''1''] example_state)) = []"
    by (simp add: osc_handler_def tuple_key_def example_state_def running_state_def
        initial_state_def log_gui_def)
  from k r f n 1 2 3 show ?thesis by blast
qed

text \<open>
  C4 as the specification states it fails: the rule with \<^verbatim>\<open>in_value\<close> integer 1, loaded from
  the configuration, is hit by a message whose first argument is the float 1.0. Unmapped
  messages are dropped in this state, so what is sent is the rule's output.
\<close>

theorem int_rule_float_counterexample:
  "VALUE_MAP button_state = [((HStr ''/btn/1'', HNum 1), (PStr ''/light/1'', PList [PInt 255]))]
   \<and> \<not> FORWARD_UNMAPPED button_state
   \<and> osc_client button_state \<noteq> None
   \<and> sent button_state = []
   \<and> sent (snd (osc_handler ''/btn/1'' [PFloat 1] button_state)) =
       [(PStr ''/light/1'', [PInt 255])]"
  by (simp add: button_state_def button_config_def first_rule_def load_config_def
      apply_config_def add_mapping_def tuple_key_def dict_get_def initial_state_def log_gui_def
      osc_handler_def send_osc_def send_args_def Let_def)

text \<open>
  C9, as the code has it. A rule whose match value is absent is stored under the key
  value of \<^verbatim>\<open>None\<close>. It is hit by every message at its address with no arguments, and also
  by every message whose first argument is \<^verbatim>\<open>None\<close> (an OSC Nil); it plays no part in
  handling a message whose first argument is anything else.
\<close>

theorem absent_rule_matches_no_argument:
  assumes "map_of (VALUE_MAP st) (HStr A, HNone) = Some (out_address, out_args)"
  shows "osc_handler A [] st =
           (None, send_osc out_address out_args (log_gui (Recv A []) st))
       \<and> osc_handler A (PNone # rest) st =
           (None, send_osc out_address out_args (log_gui (Recv A (PNone # rest)) st))
       \<and> (V \<noteq> PNone \<longrightarrow>
            osc_handler A (V # rest) (without_rule (HStr A, HNone) st) =
              (fst (osc_handler A (V # rest) st),
               without_rule (HStr A, HNone) (snd (osc_handler A (V # rest) st))))"
proof -
  have "V \<noteq> PNone \<Longrightarrow> py_key (first_arg (V # rest)) \<noteq> Some HNone"
    by (cases V) simp_all
  with assms show ?thesis
    by (auto simp: osc_handler_hit intro!: osc_handler_other_rule)
qed

theorem absent_rule_matches_no_argument_witness:
  "map_of (VALUE_MAP absent_state) (HStr ''/stop'', HNone) = Some (PStr ''/all/off'', PList [])
   \<and> sent (snd (osc_handler ''/stop'' [] absent_state)) = [(PStr ''/all/off'', [])]
   \<and> PInt 5 \<noteq> PNone
   \<and> osc_handler ''/stop'' [PInt 5] (without_rule (HStr ''/stop'', HNone) absent_state) =
       (fst (osc_handler ''/stop'' [PInt 5] absent_state),
        without_rule (HStr ''/stop'', HNone) (snd (osc_handler ''/stop'' [PInt 5] absent_state)))
   \<and> sent (snd (osc_handler ''/stop'' [PInt 5] absent_state)) = []"
proof -
  have st: "absent_state =
      \<lparr>VALUE_MAP = [((HStr ''/stop'', HNone), (PStr ''/all/off'', PList []))],
       FORWARD_UNMAPPED = False, osc_client = Some (''127.0.0.1'', 7000), sent = [],
       gui_log = [Config_loaded, Loaded_mappings 1 False]\<rparr>"
    by (simp add: absent_state_def absent_config_def load_config_def apply_config_def
        add_mapping_def tuple_key_def dict_get_def initial_state_def log_gui_def)
  have r: "map_of (VALUE_MAP absent_state) (HStr ''/stop'', HNone) =
      Some (PStr ''/all/off'', PList [])"
    by (simp add: st)
  have n: "PInt 5 \<noteq> PNone" by simp
  note t = absent_rule_matches_no_argument [OF r, of "[]" "PInt 5"]
  from t have "osc_handler ''/stop'' [] absent_state =
      (None, send_osc (PStr ''/all/off'') (PList []) (log_gui (Recv ''/stop'' []) absent_state))"
    by blast
  then have 1: "sent (snd (osc_handler ''/stop'' [] absent_state)) = [(PStr ''/all/off'', [])]"
    by (simp add: st send_osc_def log_gui_def send_args_def)
  from t n have 2: "osc_handler ''/stop'' [PInt 5]
        (without_rule (HStr ''/stop'', HNone) absent_state) =
       (fst (osc_handler ''/stop'' [PInt 5] absent_state),
        without_rule (HStr ''/stop'', HNone) (snd (osc_handler ''/stop'' [PInt 5] absent_state)))"
    by blast
  have 3: "sent (snd (osc_handler ''/stop'' [PInt 5] absent_state)) = []"
    by (simp add: st osc_handler_def tuple_key_def log_gui_def)
  from r n 1 2 3 show ?thesis by blast
qed

text \<open>
  C9 as the specification states it fails for a message that carries arguments and whose
  first argument is \<^verbatim>\<open>None\<close>: it hits the rule without \<^verbatim>\<open>in_value\<close>. Unmapped messages are
  dropped in this state, so what is sent is the rule's output.
\<close>

theorem absent_rule_nil_counterexample:
  "VALUE_MAP absent_state = [((HStr ''/stop'', HNone), (PStr ''/all/off'', PList []))]
   \<and> \<not> FORWARD_UNMAPPED absent_state
   \<and> osc_client absent_state \<noteq> None
   \<and> sent absent_state = []
   \<and> sent (snd (osc_handler ''/stop'' [PNone, PInt 5] absent_state)) =
       [(PStr ''/all/off'', [])]"
  by (simp add: absent_state_def absent_config_def load_config_def apply_config_def
      add_mapping_def tuple_key_def dict_get_def initial_state_def log_gui_def
      osc_handler_def send_osc_def send_args_def Let_def)

section \<open>Loading the configuration\<close>

text \<open>
  C5, as the code has it. When reading or decoding the file raises, \<^verbatim>\<open>load_config\<close> logs
  the error and returns without touching the globals. At startup these are the module's
  initial values: the empty table and \<^verbatim>\<open>FORWARD_UNMAPPED = True\<close>.
\<close>

theorem unreadable_config_keeps_globals:
  "load_config Unreadable st = (None, st\<lparr>gui_log := gui_log st @ [Error_reading_config]\<rparr>)
   \<and> VALUE_MAP (snd (load_config Unreadable initial_state)) = []
   \<and> FORWARD_UNMAPPED (snd (load_config Unreadable initial_state)) = True"
  by (simp add: load_config_def log_gui_def initial_state_def)

text \<open>
  C5 as the specification states it fails in the flag: after a failed read at startup
  \<^verbatim>\<open>FORWARD_UNMAPPED\<close> is true, and a message without a rule is forwarded, not dropped.
\<close>

theorem unreadable_config_counterexample:
  "fst (load_config Unreadable initial_state) = None
   \<and> FORWARD_UNMAPPED (snd (load_config Unreadable initial_state)) \<noteq> False
   \<and> sent (snd (osc_handler ''/x'' [PInt 3]
        ((snd (load_config Unreadable initial_state))
           \<lparr>osc_client := Some (''127.0.0.1'', 7000)\<rparr>))) =
       [(PStr ''/x'', [PInt 3])]"
  by (simp add: load_config_def initial_state_def log_gui_def
      osc_handler_def tuple_key_def send_osc_def send_args_def Let_def)

text \<open>
  C10. Decoded data that is an object without the key \<^verbatim>\<open>"forward_unmapped"\<close> sets
  \<^verbatim>\<open>FORWARD_UNMAPPED\<close> to false, whatever it was and whether or not the loop over the mappings
  raises afterwards. The default configuration written when no file exists carries the
  flag true, and loading it sets \<^verbatim>\<open>FORWARD_UNMAPPED\<close> to true.
\<close>

theorem missing_forward_unmapped_is_false:
  assumes "map_of kvs ''forward_unmapped'' = None"
  shows "\<not> FORWARD_UNMAPPED (snd (load_config (Decoded (PDict kvs)) st))
       \<and> py_get default_config ''forward_unmapped'' (PBool False) = Inr (PBool True)
       \<and> FORWARD_UNMAPPED (snd (load_config (No_file True) st))"
  using assms
  by (auto simp: load_config_def apply_config_def dict_get_def default_config_def log_gui_def
      Let_def split: sum.splits)

theorem missing_forward_unmapped_is_false_witness:
  "map_of duplicate_config ''forward_unmapped'' = None
   \<and> FORWARD_UNMAPPED initial_state
   \<and> \<not> FORWARD_UNMAPPED (snd (load_config (Decoded (PDict duplicate_config)) initial_state))
   \<and> FORWARD_UNMAPPED (snd (load_config (No_file True) initial_state))"
proof -
  have m: "map_of duplicate_config ''forward_unmapped'' = None"
    by (simp add: duplicate_config_def)
  have i: "FORWARD_UNMAPPED initial_state"
    by (simp add: initial_state_def)
  from missing_forward_unmapped_is_false [OF m, of initial_state] m i show ?thesis
    by blast
qed

section \<open>Building the rule table\<close>

lemma add_mapping_returns: "\<not> isl (add_mapping m d) \<longleftrightarrow> entry_ok m"
  by (cases m) (auto simp: add_mapping_def tuple_key_def split: option.splits)

lemma build_mappings_returns: "\<not> isl (build_mappings es d) \<longleftrightarrow> list_all entry_ok es"
proof (induction es arbitrary: d)
  case Nil
  show ?case by simp
next
  case (Cons m es)
  show ?case
  proof (cases "add_mapping m d")
    case (Inl e)
    then have "\<not> entry_ok m" using add_mapping_returns [of m d] by simp
    with Inl show ?thesis by simp
  next
    case (Inr d')
    then have "entry_ok m" using add_mapping_returns [of m d] by simp
    with Inr Cons.IH [of d'] show ?thesis by simp
  qed
qed

lemma fst_apply_config:
  "fst (apply_config (PDict kvs) st) = None \<longleftrightarrow>
     (case py_iter (dict_get kvs ''mappings'' (PList [])) of
        Inl e \<Rightarrow> False
      | Inr es \<Rightarrow> \<not> isl (build_mappings es []))"
  by (simp add: apply_config_def Let_def split: sum.splits)

lemma apply_config_returns: "fst (apply_config data st) = None \<longleftrightarrow> config_ok data"
proof (cases data)
  case (PDict kvs)
  show ?thesis
  proof (cases "dict_get kvs ''mappings'' (PList [])")
    case (PList es)
    with PDict show ?thesis by (simp add: fst_apply_config build_mappings_returns)
  next
    case (PDict d)
    with \<open>data = PDict kvs\<close> show ?thesis
      by (cases d) (simp_all add: fst_apply_config add_mapping_def)
  next
    case (PStr str)
    with PDict show ?thesis
      by (cases str) (simp_all add: fst_apply_config add_mapping_def)
  qed (use PDict in \<open>simp_all add: fst_apply_config\<close>)
qed (simp_all add: apply_config_def)

text \<open>
  C6, as the code has it. Construction is not guarded: \<^verbatim>\<open>load_config\<close> returns normally on
  decoded data exactly when the data has the shape \<open>config_ok\<close>, and raises
  \<^verbatim>\<open>AttributeError\<close> or \<^verbatim>\<open>TypeError\<close> on all other decoded data.
\<close>

theorem construction_returns_iff_well_shaped:
  "fst (load_config (Decoded data) st) = None \<longleftrightarrow> config_ok data"
  by (simp add: load_config_def apply_config_returns)

theorem construction_returns_iff_well_shaped_witness:
  "config_ok button_config
   \<and> fst (load_config (Decoded button_config) initial_state) = None
   \<and> \<not> config_ok unhashable_value_config
   \<and> fst (load_config (Decoded unhashable_value_config) initial_state) \<noteq> None"
proof -
  have ok: "config_ok button_config"
    by (simp add: button_config_def first_rule_def dict_get_def)
  have bad: "\<not> config_ok unhashable_value_config"
    by (simp add: unhashable_value_config_def dict_get_def)
  from construction_returns_iff_well_shaped [of button_config initial_state]
    construction_returns_iff_well_shaped [of unhashable_value_config initial_state]
    ok bad
  show ?thesis by blast
qed

text \<open>
  C6 as the specification states it fails: decoded data that is not an object (here the
  JSON array \<^verbatim>\<open>[]\<close>) raises \<^verbatim>\<open>AttributeError\<close> at \<^verbatim>\<open>data.get\<close>, and a rule whose \<^verbatim>\<open>in_value\<close> is a
  JSON array raises \<^verbatim>\<open>TypeError\<close> when it is stored.
\<close>

theorem construction_raises_counterexample:
  "fst (load_config (Decoded (PList [])) initial_state) = Some AttributeError
   \<and> fst (load_config (Decoded unhashable_value_config) initial_state) = Some TypeError"
  by (simp add: load_config_def apply_config_def unhashable_value_config_def add_mapping_def
      tuple_key_def dict_get_def)

lemma add_mapping_stored:
  "stored_rule m = Some (key, out) \<Longrightarrow> add_mapping m d = Inr (AList.update key out d)"
  by (cases m)
    (auto simp: stored_rule_def add_mapping_def split: if_splits sum.splits list.splits)

lemma add_mapping_other_key:
  assumes "add_mapping m d = Inr d'" and "\<forall>out. stored_rule m \<noteq> Some (key, out)"
  shows "map_of d' key = map_of d key"
  using assms
  by (cases m)
    (auto simp: stored_rule_def add_mapping_def update_conv' split: if_splits sum.splits)

lemma build_mappings_append:
  "build_mappings (xs @ ys) d =
     (case build_mappings xs d of Inl e \<Rightarrow> Inl e | Inr d' \<Rightarrow> build_mappings ys d')"
  by (induction xs arbitrary: d) (simp_all split: sum.splits)

lemma build_mappings_other_keys:
  assumes "build_mappings zs d = Inr T"
      and "\<forall>z\<in>set zs. \<forall>out. stored_rule z \<noteq> Some (key, out)"
  shows "map_of T key = map_of d key"
  using assms
proof (induction zs arbitrary: d)
  case Nil
  then show ?case by simp
next
  case (Cons z zs)
  from Cons.prems(1) obtain d' where step: "add_mapping z d = Inr d'"
    and rest: "build_mappings zs d' = Inr T"
    by (auto split: sum.splits)
  from Cons.prems(2) have here: "\<forall>out. stored_rule z \<noteq> Some (key, out)"
    and later: "\<forall>z\<in>set zs. \<forall>out. stored_rule z \<noteq> Some (key, out)"
    by simp_all
  have "map_of d' key = map_of d key"
    by (rule add_mapping_other_key [OF step here])
  moreover have "map_of T key = map_of d' key"
    by (rule Cons.IH [OF rest later])
  ultimately show ?case by simp
qed

lemma build_mappings_last_wins:
  assumes "build_mappings (xs @ e2 # zs) d = Inr T"
      and "stored_rule e2 = Some (key, out2)"
      and "\<forall>z\<in>set zs. \<forall>out. stored_rule z \<noteq> Some (key, out)"
  shows "map_of T key = Some out2"
proof -
  from assms(1) obtain d1 where "build_mappings (e2 # zs) d1 = Inr T"
    by (auto simp: build_mappings_append split: sum.splits)
  with assms(2) have rest: "build_mappings zs (AList.update key out2 d1) = Inr T"
    by (simp add: add_mapping_stored)
  have "map_of T key = map_of (AList.update key out2 d1) key"
    by (rule build_mappings_other_keys [OF rest assms(3)])
  then show ?thesis by (simp add: update_conv')
qed

lemma load_config_returns_table:
  assumes "load_config (Decoded (PDict kvs)) st = (None, st')"
      and "map_of kvs ''mappings'' = Some (PList es)"
  shows "build_mappings es [] = Inr (VALUE_MAP st')"
  using assms
  by (auto simp: load_config_def apply_config_def dict_get_def log_gui_def Let_def
      split: sum.splits)

text \<open>
  C7. Let the list of mappings contain two entries \<open>e1\<close>, \<open>e2\<close> in this order that are stored
  under the same key, with no entry of that key after \<open>e2\<close>. Once \<^verbatim>\<open>load_config\<close> has
  returned, looking the key up in \<^verbatim>\<open>VALUE_MAP\<close> gives the output of \<open>e2\<close>.
\<close>

theorem duplicate_key_last_write_wins:
  assumes "map_of kvs ''mappings'' = Some (PList (xs @ e1 # ys @ e2 # zs))"
      and "stored_rule e1 = Some (key, out1)"
      and "stored_rule e2 = Some (key, out2)"
      and "\<forall>z\<in>set zs. \<forall>out. stored_rule z \<noteq> Some (key, out)"
      and "load_config (Decoded (PDict kvs)) st = (None, st')"
  shows "map_of (VALUE_MAP st') key = Some out2"
proof -
  from assms(5,1) have "build_mappings (xs @ e1 # ys @ e2 # zs) [] = Inr (VALUE_MAP st')"
    by (rule load_config_returns_table)
  then have "build_mappings ((xs @ e1 # ys) @ e2 # zs) [] = Inr (VALUE_MAP st')"
    by simp
  from this assms(3,4) show ?thesis
    by (rule build_mappings_last_wins)
qed

theorem duplicate_key_last_write_wins_witness:
  "map_of duplicate_config ''mappings'' = Some (PList [first_rule, second_rule])
   \<and> stored_rule first_rule =
       Some ((HStr ''/btn/1'', HNum 1), (PStr ''/light/1'', PList [PInt 255]))
   \<and> stored_rule second_rule =
       Some ((HStr ''/btn/1'', HNum 1), (PStr ''/light/2'', PList [PInt 0]))
   \<and> fst (load_config (Decoded (PDict duplicate_config)) initial_state) = None
   \<and> map_of (VALUE_MAP (snd (load_config (Decoded (PDict duplicate_config)) initial_state)))
         (HStr ''/btn/1'', HNum 1) =
       Some (PStr ''/light/2'', PList [PInt 0])"
proof -
  have m: "map_of duplicate_config ''mappings'' =
      Some (PList ([] @ first_rule # [] @ second_rule # []))"
    by (simp add: duplicate_config_def)
  have r1: "stored_rule first_rule =
       Some ((HStr ''/btn/1'', HNum 1), (PStr ''/light/1'', PList [PInt 255]))"
    by (simp add: stored_rule_def first_rule_def add_mapping_def tuple_key_def dict_get_def)
  have r2: "stored_rule second_rule =
       Some ((HStr ''/btn/1'', HNum 1), (PStr ''/light/2'', PList [PInt 0]))"
    by (simp add: stored_rule_def second_rule_def add_mapping_def tuple_key_def dict_get_def)
  have z: "\<forall>z\<in>set []. \<forall>out. stored_rule z \<noteq> Some ((HStr ''/btn/1'', HNum 1), out)"
    by simp
  have ret: "fst (load_config (Decoded (PDict duplicate_config)) initial_state) = None"
    by (simp add: load_config_def apply_config_def duplicate_config_def first_rule_def
        second_rule_def add_mapping_def tuple_key_def dict_get_def)
  then have l: "load_config (Decoded (PDict duplicate_config)) initial_state =
      (None, snd (load_config (Decoded (PDict duplicate_config)) initial_state))"
    by (simp add: prod_eq_iff)
  from duplicate_key_last_write_wins [OF m r1 r2 z l] m r1 r2 ret show ?thesis
    by simp
qed

text \<open>
  C8. An entry (a JSON object) whose \<^verbatim>\<open>in_address\<close> or \<^verbatim>\<open>out_address\<close> is missing, null or empty
  (falsy) is skipped by the loop body without an exception, and \<^verbatim>\<open>load_config\<close> does
  exactly what it does on the same configuration with that entry removed: the same
  exception if any, the same table, flag and log. So the entry is in no lookup result.
\<close>

theorem malformed_entry_discarded:
  assumes "map_of kvs ''mappings'' = Some (PList (xs @ PDict e # ys))"
      and "\<not> truthy (dict_get e ''in_address'' PNone)
           \<or> \<not> truthy (dict_get e ''out_address'' PNone)"
  shows "add_mapping (PDict e) d = Inr d
       \<and> load_config (Decoded (PDict kvs)) st =
           load_config (Decoded (PDict (AList.update ''mappings'' (PList (xs @ ys)) kvs))) st"
proof -
  have skip: "add_mapping (PDict e) d' = Inr d'" for d'
    using assms(2) by (auto simp: add_mapping_def)
  have build: "build_mappings (xs @ PDict e # ys) [] = build_mappings (xs @ ys) []"
    by (simp add: build_mappings_append skip split: sum.splits)
  have old: "dict_get kvs ''mappings'' (PList []) = PList (xs @ PDict e # ys)"
    using assms(1) by (simp add: dict_get_def)
  have new: "dict_get (AList.update ''mappings'' (PList (xs @ ys)) kvs) ''mappings'' (PList []) =
      PList (xs @ ys)"
    by (simp add: dict_get_def update_conv')
  have flag: "dict_get (AList.update ''mappings'' (PList (xs @ ys)) kvs) ''forward_unmapped''
      (PBool False) = dict_get kvs ''forward_unmapped'' (PBool False)"
    by (simp add: dict_get_def update_conv')
  have "apply_config (PDict kvs) s =
      apply_config (PDict (AList.update ''mappings'' (PList (xs @ ys)) kvs)) s" for s
    by (simp add: apply_config_def old new flag build)
  then show ?thesis
    by (simp add: load_config_def skip)
qed

theorem malformed_entry_discarded_witness:
  "map_of malformed_config ''mappings'' = Some (PList [PDict no_out_address, first_rule])
   \<and> \<not> truthy (dict_get no_out_address ''out_address'' PNone)
   \<and> add_mapping (PDict no_out_address) [] = Inr []
   \<and> load_config (Decoded (PDict malformed_config)) initial_state =
       load_config (Decoded button_config) initial_state
   \<and> VALUE_MAP (snd (load_config (Decoded (PDict malformed_config)) initial_state)) =
       [((HStr ''/btn/1'', HNum 1), (PStr ''/light/1'', PList [PInt 255]))]"
proof -
  have m: "map_of malformed_config ''mappings'' =
      Some (PList ([] @ PDict no_out_address # [first_rule]))"
    by (simp add: malformed_config_def)
  have f: "\<not> truthy (dict_get no_out_address ''out_address'' PNone)"
    by (simp add: no_out_address_def dict_get_def)
  then have h: "\<not> truthy (dict_get no_out_address ''in_address'' PNone)
      \<or> \<not> truthy (dict_get no_out_address ''out_address'' PNone)"
    by simp
  have u: "PDict (AList.update ''mappings'' (PList ([] @ [first_rule])) malformed_config) =
      button_config"
    by (simp add: malformed_config_def button_config_def)
  have b: "VALUE_MAP (snd (load_config (Decoded button_config) initial_state)) =
       [((HStr ''/btn/1'', HNum 1), (PStr ''/light/1'', PList [PInt 255]))]"
    by (simp add: button_config_def first_rule_def load_config_def apply_config_def
        add_mapping_def tuple_key_def dict_get_def log_gui_def)
  from malformed_entry_discarded [OF m h, of "[]" initial_state] m f u b show ?thesis
    by simp
qed

end
